theory Spec2Isabelle
  imports Main
begin

section \<open>Python values decoded from JSON\<close>

text \<open>
  \<^verbatim>\<open>response.json()\<close> hands the command handlers an arbitrary Python object built from
  JSON text: \<^verbatim>\<open>None\<close>, a \<^verbatim>\<open>bool\<close>, an \<^verbatim>\<open>int\<close>, a \<^verbatim>\<open>float\<close>, a \<^verbatim>\<open>str\<close>, a \<^verbatim>\<open>list\<close>
  or a \<^verbatim>\<open>dict\<close> with string keys.  The handlers are dynamically typed, so the model keeps
  all seven shapes and every operation says what Python does on each of them.

  Text is a HOL \<^typ>\<open>string\<close>; a character stands for the code point of the same number
  (code points below 256).  A \<^verbatim>\<open>float\<close> is carried as the text \<^verbatim>\<open>repr\<close> gives for it
  (\<^verbatim>\<open>5.5\<close>, \<^verbatim>\<open>1e+16\<close>, \<^verbatim>\<open>nan\<close>, \<^verbatim>\<open>inf\<close>, \<^verbatim>\<open>-inf\<close>): the program only ever prints floats.
  A \<^verbatim>\<open>dict\<close> is the list of its items in insertion order, keys distinct.
\<close>

datatype json =
    JNull
  | JBool bool
  | JInt int
  | JFloat string
  | JStr string
  | JList "json list"
  | JObj "(string \<times> json) list"

datatype py_exception =
    RequestException string
  | JSONDecodeError string
  | KeyError json
  | IndexError
  | TypeError
  | AttributeError
  | ValueError
  | OverflowError

text \<open>
  \<open>RequestException e\<close> is \<^verbatim>\<open>requests.RequestException\<close> or any subclass of it, with
  \<open>e\<close> the text of \<^verbatim>\<open>str(e)\<close>.  \<open>JSONDecodeError\<close> is the decoder's own error class, a
  \<^verbatim>\<open>ValueError\<close> that is not a \<^verbatim>\<open>RequestException\<close> (what \<^verbatim>\<open>response.json()\<close> raised before
  requests 2.27).
\<close>

text \<open>A step that may raise, followed by the rest of the block.\<close>

definition and_then :: "py_exception + 'a \<Rightarrow> ('a \<Rightarrow> py_exception + 'b) \<Rightarrow> py_exception + 'b" where
  "and_then x f = (case x of Inl e \<Rightarrow> Inl e | Inr v \<Rightarrow> f v)"

subsection \<open>Truth value, subscription, iteration, methods\<close>

fun truthy :: "json \<Rightarrow> bool" where
  "truthy JNull = False"
| "truthy (JBool b) = b"
| "truthy (JInt i) = (i \<noteq> 0)"
| "truthy (JFloat r) = (r \<noteq> ''0.0'' \<and> r \<noteq> ''-0.0'')"
| "truthy (JStr s) = (s \<noteq> [])"
| "truthy (JList xs) = (xs \<noteq> [])"
| "truthy (JObj kvs) = (kvs \<noteq> [])"

text \<open>\<^verbatim>\<open>x[0]\<close>: the first item of a list, the first character of a string, a key lookup
  in a dict (whose keys are strings, so \<^verbatim>\<open>0\<close> is never among them).\<close>

fun subscript_0 :: "json \<Rightarrow> py_exception + json" where
  "subscript_0 (JList []) = Inl IndexError"
| "subscript_0 (JList (x # xs)) = Inr x"
| "subscript_0 (JStr []) = Inl IndexError"
| "subscript_0 (JStr (c # cs)) = Inr (JStr [c])"
| "subscript_0 (JObj kvs) = Inl (KeyError (JInt 0))"
| "subscript_0 _ = Inl TypeError"

text \<open>\<^verbatim>\<open>x[key]\<close> with a string key: only a dict accepts it.\<close>

fun subscript_key :: "json \<Rightarrow> string \<Rightarrow> py_exception + json" where
  "subscript_key (JObj kvs) k =
     (case map_of kvs k of None \<Rightarrow> Inl (KeyError (JStr k)) | Some v \<Rightarrow> Inr v)"
| "subscript_key _ k = Inl TypeError"

text \<open>\<^verbatim>\<open>x.get(key, default)\<close>: a method of dicts only; the default stands in for a key
  that is absent, never for a value that is present.\<close>

definition dict_get :: "(string \<times> json) list \<Rightarrow> string \<Rightarrow> json \<Rightarrow> json" where
  "dict_get kvs k d = (case map_of kvs k of None \<Rightarrow> d | Some v \<Rightarrow> v)"

fun get_method :: "json \<Rightarrow> string \<Rightarrow> json \<Rightarrow> py_exception + json" where
  "get_method (JObj kvs) k d = Inr (dict_get kvs k d)"
| "get_method _ k d = Inl AttributeError"

text \<open>\<^verbatim>\<open>x.replace(old, new)\<close> for a one-character \<^verbatim>\<open>old\<close>: a method of strings only.\<close>

definition str_replace :: "string \<Rightarrow> char \<Rightarrow> string \<Rightarrow> string" where
  "str_replace s old new = concat (map (\<lambda>c. if c = old then new else [c]) s)"

fun replace_method :: "json \<Rightarrow> char \<Rightarrow> string \<Rightarrow> py_exception + string" where
  "replace_method (JStr s) old new = Inr (str_replace s old new)"
| "replace_method _ old new = Inl AttributeError"

text \<open>\<^verbatim>\<open>for entry in x\<close>: the items of a list, the keys of a dict, the characters of a
  string; nothing else is iterable.\<close>

fun iterate :: "json \<Rightarrow> py_exception + json list" where
  "iterate (JList xs) = Inr xs"
| "iterate (JObj kvs) = Inr (map (\<lambda>kv. JStr (fst kv)) kvs)"
| "iterate (JStr s) = Inr (map (\<lambda>c. JStr [c]) s)"
| "iterate _ = Inl TypeError"

subsection \<open>Decimal and hexadecimal numerals\<close>

definition digit_char :: "nat \<Rightarrow> char" where
  "digit_char d = ''0123456789abcdef'' ! d"

fun str_nat :: "nat \<Rightarrow> string" where
  "str_nat n = (if n < 10 then [digit_char n] else str_nat (n div 10) @ [digit_char (n mod 10)])"

declare str_nat.simps [simp del]

definition str_int :: "int \<Rightarrow> string" where
  "str_int i = (if i < 0 then CHR ''-'' # str_nat (nat (- i)) else str_nat (nat i))"

text \<open>\<^verbatim>\<open>"%0wd" % n\<close> for a natural number.\<close>

definition zero_pad :: "nat \<Rightarrow> nat \<Rightarrow> string" where
  "zero_pad w n = replicate (w - length (str_nat n)) CHR ''0'' @ str_nat n"

definition hex2 :: "nat \<Rightarrow> string" where
  "hex2 n = [digit_char (n div 16 mod 16), digit_char (n mod 16)]"

subsection \<open>\<^verbatim>\<open>str\<close> and \<^verbatim>\<open>repr\<close>\<close>

text \<open>
  \<^verbatim>\<open>repr\<close> of a string picks the quote (double only when the text has a single quote and
  no double quote), escapes the quote, the backslash, tab, newline and carriage return, and
  writes every other non-printable character as \<^verbatim>\<open>\xNN\<close>.  Below 256 the non-printable
  code points are 0-31, 127-160 and 173.
\<close>

definition printable :: "char \<Rightarrow> bool" where
  "printable c = (let n = (of_char c :: nat) in 32 \<le> n \<and> \<not> (127 \<le> n \<and> n \<le> 160) \<and> n \<noteq> 173)"

definition repr_char :: "char \<Rightarrow> char \<Rightarrow> string" where
  "repr_char q c =
     (if c = q \<or> c = CHR 0x5C then [CHR 0x5C, c]
      else if c = CHR 0x09 then [CHR 0x5C, CHR ''t'']
      else if c = CHR 0x0A then [CHR 0x5C, CHR ''n'']
      else if c = CHR 0x0D then [CHR 0x5C, CHR ''r'']
      else if printable c then [c]
      else [CHR 0x5C, CHR ''x''] @ hex2 (of_char c))"

definition repr_str :: "string \<Rightarrow> string" where
  "repr_str s =
     (let q = (if CHR 0x27 \<in> set s \<and> CHR 0x22 \<notin> set s then CHR 0x22 else CHR 0x27)
      in q # concat (map (repr_char q) s) @ [q])"

text \<open>\<^verbatim>\<open>sep.join(parts)\<close>.\<close>

fun join :: "string \<Rightarrow> string list \<Rightarrow> string" where
  "join sep [] = []"
| "join sep [x] = x"
| "join sep (x # y # ys) = x @ sep @ join sep (y # ys)"

fun py_repr :: "json \<Rightarrow> string" where
  "py_repr JNull = ''None''"
| "py_repr (JBool b) = (if b then ''True'' else ''False'')"
| "py_repr (JInt i) = str_int i"
| "py_repr (JFloat r) = r"
| "py_repr (JStr s) = repr_str s"
| "py_repr (JList xs) = ''['' @ join '', '' (map py_repr xs) @ '']''"
| "py_repr (JObj kvs) =
     ''{'' @ join '', '' (map (\<lambda>kv. repr_str (fst kv) @ '': '' @ py_repr (snd kv)) kvs) @ ''}''"

text \<open>\<^verbatim>\<open>str(x)\<close>, which is also what an f-string field \<^verbatim>\<open>{x}\<close> inserts: the text itself
  for a string, \<^verbatim>\<open>repr(x)\<close> for the rest.\<close>

fun py_str :: "json \<Rightarrow> string" where
  "py_str (JStr s) = s"
| "py_str v = py_repr v"

subsection \<open>\<^verbatim>\<open>json.dumps\<close>\<close>

text \<open>
  \<^verbatim>\<open>json.dumps\<close> with its default options: ASCII output, separators \<^verbatim>\<open>", "\<close> and
  \<^verbatim>\<open>": "\<close>, keys in insertion order.  Inside a string the backslash, the double quote and
  the five control characters with a short form are escaped by name; every other character
  outside the range from space to tilde is written \<^verbatim>\<open>\uXXXX\<close>.
\<close>

definition json_char :: "char \<Rightarrow> string" where
  "json_char c =
     (if c = CHR 0x5C then [CHR 0x5C, CHR 0x5C]
      else if c = CHR 0x22 then [CHR 0x5C, CHR 0x22]
      else if c = CHR 0x08 then [CHR 0x5C, CHR ''b'']
      else if c = CHR 0x0C then [CHR 0x5C, CHR ''f'']
      else if c = CHR 0x0A then [CHR 0x5C, CHR ''n'']
      else if c = CHR 0x0D then [CHR 0x5C, CHR ''r'']
      else if c = CHR 0x09 then [CHR 0x5C, CHR ''t'']
      else if 32 \<le> (of_char c :: nat) \<and> (of_char c :: nat) \<le> 126 then [c]
      else [CHR 0x5C, CHR ''u'', CHR ''0'', CHR ''0''] @ hex2 (of_char c))"

definition json_string :: "string \<Rightarrow> string" where
  "json_string s = CHR 0x22 # concat (map json_char s) @ [CHR 0x22]"

definition json_float :: "string \<Rightarrow> string" where
  "json_float r =
     (if r = ''nan'' then ''NaN'' else if r = ''inf'' then ''Infinity''
      else if r = ''-inf'' then ''-Infinity'' else r)"

fun json_dumps :: "json \<Rightarrow> string" where
  "json_dumps JNull = ''null''"
| "json_dumps (JBool b) = (if b then ''true'' else ''false'')"
| "json_dumps (JInt i) = str_int i"
| "json_dumps (JFloat r) = json_float r"
| "json_dumps (JStr s) = json_string s"
| "json_dumps (JList xs) = ''['' @ join '', '' (map json_dumps xs) @ '']''"
| "json_dumps (JObj kvs) =
     ''{'' @ join '', '' (map (\<lambda>kv. json_string (fst kv) @ '': '' @ json_dumps (snd kv)) kvs) @ ''}''"

section \<open>Dates and times\<close>

text \<open>
  A \<^verbatim>\<open>datetime\<close> is the instant its fields denote on its own wall clock, counted in
  microseconds from 0001-01-01T00:00:00 (\<open>ticks\<close>), with the UTC offset in microseconds
  when it is aware and \<open>None\<close> when it is naive.  Python stores year, month, day, hour,
  minute, second and microsecond; they are recovered by \<open>ord2ymd\<close> below, which is the
  library's own conversion.  A \<^verbatim>\<open>timedelta\<close> is its length in microseconds.
\<close>

record datetime =
  ticks :: int
  utcoffset :: "int option"

definition DAY_US :: int where
  "DAY_US = 86400000000"

definition MAXORDINAL :: int where
  "MAXORDINAL = 3652059"

text \<open>The \<^verbatim>\<open>timedelta\<close> constructor normalises and refuses more than 999999999 days.\<close>

definition timedelta :: "int \<Rightarrow> py_exception + int" where
  "timedelta us = (if \<bar>us div DAY_US\<bar> > 999999999 then Inl OverflowError else Inr us)"

definition timedelta_days :: "int \<Rightarrow> py_exception + int" where
  "timedelta_days d = timedelta (d * DAY_US)"

definition timedelta_minutes :: "int \<Rightarrow> py_exception + int" where
  "timedelta_minutes m = timedelta (m * 60000000)"

text \<open>
  \<^verbatim>\<open>datetime + timedelta\<close>: the library adds the two as timedeltas counted from ordinal 0
  and accepts the sum when its day number is an ordinal of the years 1 to 9999.
  \<^verbatim>\<open>datetime - timedelta\<close> is \<^verbatim>\<open>datetime + (-timedelta)\<close>.
\<close>

definition datetime_add :: "datetime \<Rightarrow> int \<Rightarrow> py_exception + datetime" where
  "datetime_add dt td =
     (case timedelta (ticks dt + DAY_US + td) of
        Inl e \<Rightarrow> Inl e
      | Inr delta \<Rightarrow>
          if 0 < delta div DAY_US \<and> delta div DAY_US \<le> MAXORDINAL
          then Inr (dt\<lparr>ticks := delta - DAY_US\<rparr>)
          else Inl OverflowError)"

definition datetime_sub :: "datetime \<Rightarrow> int \<Rightarrow> py_exception + datetime" where
  "datetime_sub dt td =
     (case timedelta (- td) of Inl e \<Rightarrow> Inl e | Inr neg \<Rightarrow> datetime_add dt neg)"

text \<open>Comparison of two naive datetimes.\<close>

definition datetime_le :: "datetime \<Rightarrow> datetime \<Rightarrow> bool" where
  "datetime_le a b = (ticks a \<le> ticks b)"

subsection \<open>The proleptic Gregorian calendar\<close>

definition DAYS_IN_MONTH :: "int list" where
  "DAYS_IN_MONTH = [-1, 31, 28, 31, 30, 31, 30, 31, 31, 30, 31, 30, 31]"

definition DAYS_BEFORE_MONTH :: "int list" where
  "DAYS_BEFORE_MONTH = [-1, 0, 31, 59, 90, 120, 151, 181, 212, 243, 273, 304, 334]"

definition is_leap :: "int \<Rightarrow> bool" where
  "is_leap year = (year mod 4 = 0 \<and> (year mod 100 \<noteq> 0 \<or> year mod 400 = 0))"

definition days_before_year :: "int \<Rightarrow> int" where
  "days_before_year year = (let y = year - 1 in y * 365 + y div 4 - y div 100 + y div 400)"

definition days_in_month :: "int \<Rightarrow> int \<Rightarrow> int" where
  "days_in_month year month =
     (if month = 2 \<and> is_leap year then 29 else DAYS_IN_MONTH ! nat month)"

definition days_before_month :: "int \<Rightarrow> int \<Rightarrow> int" where
  "days_before_month year month =
     DAYS_BEFORE_MONTH ! nat month + (if month > 2 \<and> is_leap year then 1 else 0)"

definition ymd2ord :: "int \<Rightarrow> int \<Rightarrow> int \<Rightarrow> int" where
  "ymd2ord year month day = days_before_year year + days_before_month year month + day"

definition ord2ymd :: "int \<Rightarrow> int \<times> int \<times> int" where
  "ord2ymd ordinal =
     (let n = ordinal - 1;
          n400 = n div 146097; n = n mod 146097;
          year = n400 * 400 + 1;
          n100 = n div 36524; n = n mod 36524;
          n4 = n div 1461; n = n mod 1461;
          n1 = n div 365; n = n mod 365;
          year = year + n100 * 100 + n4 * 4 + n1
      in if n1 = 4 \<or> n100 = 4 then (year - 1, 12, 31)
         else
           let leapyear = (n1 = 3 \<and> (n4 \<noteq> 24 \<or> n100 = 3));
               month = (n + 50) div 32;
               preceding = DAYS_BEFORE_MONTH ! nat month + (if month > 2 \<and> leapyear then 1 else 0)
           in if preceding > n
              then let month = month - 1;
                       preceding = preceding -
                         (DAYS_IN_MONTH ! nat month + (if month = 2 \<and> leapyear then 1 else 0))
                   in (year, month, n - preceding + 1)
              else (year, month, n - preceding + 1))"

subsection \<open>\<^verbatim>\<open>isoformat\<close>\<close>

definition format_date :: "int \<Rightarrow> string" where
  "format_date t =
     (case ord2ymd (t div DAY_US + 1) of
        (year, month, day) \<Rightarrow>
          zero_pad 4 (nat year) @ ''-'' @ zero_pad 2 (nat month) @ ''-'' @ zero_pad 2 (nat day))"

definition format_time :: "int \<Rightarrow> string" where
  "format_time t =
     (let us = t mod 1000000; secs = t mod DAY_US div 1000000;
          hh = secs div 3600; mm = secs mod 3600 div 60; ss = secs mod 60
      in zero_pad 2 (nat hh) @ '':'' @ zero_pad 2 (nat mm) @ '':'' @ zero_pad 2 (nat ss)
         @ (if us \<noteq> 0 then ''.'' @ zero_pad 6 (nat us) else []))"

definition format_offset :: "int option \<Rightarrow> string" where
  "format_offset off =
     (case off of
        None \<Rightarrow> []
      | Some o1 \<Rightarrow>
          let sign = (if o1 < 0 then ''-'' else ''+'');
              a = \<bar>o1\<bar>;
              hh = a div 3600000000; mm = a mod 3600000000 div 60000000;
              ss = a mod 60000000 div 1000000; us = a mod 1000000
          in sign @ zero_pad 2 (nat hh) @ '':'' @ zero_pad 2 (nat mm)
             @ (if ss \<noteq> 0 \<or> us \<noteq> 0
                then '':'' @ zero_pad 2 (nat ss) @ (if us \<noteq> 0 then ''.'' @ zero_pad 6 (nat us) else [])
                else []))"

definition isoformat :: "datetime \<Rightarrow> string" where
  "isoformat dt = format_date (ticks dt) @ ''T'' @ format_time (ticks dt) @ format_offset (utcoffset dt)"

subsection \<open>\<^verbatim>\<open>datetime.fromisoformat\<close>\<close>

text \<open>
  The grammar of the library documentation for Python 3.7 to 3.10, the inverse of
  \<^verbatim>\<open>isoformat\<close>: \<^verbatim>\<open>YYYY-MM-DD[*HH[:MM[:SS[.fff[fff]]]][+HH:MM[:SS[.ffffff]]]]\<close>, where \<^verbatim>\<open>*\<close> is
  any one character.  Every rejection is a \<^verbatim>\<open>ValueError\<close>.  Later versions accept further
  ISO 8601 forms; the results below that depend on a text being accepted or refused name
  that as a condition or use a text on which all versions agree.
\<close>

definition is_digit :: "char \<Rightarrow> bool" where
  "is_digit c = (48 \<le> (of_char c :: nat) \<and> (of_char c :: nat) \<le> 57)"

definition digit_val :: "char \<Rightarrow> int" where
  "digit_val c = int (of_char c) - 48"

definition digits :: "string \<Rightarrow> int option" where
  "digits s =
     (if s \<noteq> [] \<and> list_all is_digit s
      then Some (foldl (\<lambda>acc c. acc * 10 + digit_val c) 0 s) else None)"

definition parse_isoformat_date :: "string \<Rightarrow> (int \<times> int \<times> int) option" where
  "parse_isoformat_date s =
     (if length s = 10 \<and> s ! 4 = CHR ''-'' \<and> s ! 7 = CHR ''-'' then
        (case (digits (take 4 s), digits (take 2 (drop 5 s)), digits (drop 8 s)) of
           (Some y, Some m, Some d) \<Rightarrow> Some (y, m, d)
         | _ \<Rightarrow> None)
      else None)"

definition parse_hh_mm_ss_ff :: "string \<Rightarrow> (int \<times> int \<times> int \<times> int) option" where
  "parse_hh_mm_ss_ff s =
     (let n = length s in
      if n = 2 then
        (case digits s of Some h \<Rightarrow> Some (h, 0, 0, 0) | None \<Rightarrow> None)
      else if n = 5 \<and> s ! 2 = CHR '':'' then
        (case (digits (take 2 s), digits (drop 3 s)) of
           (Some h, Some m) \<Rightarrow> Some (h, m, 0, 0)
         | _ \<Rightarrow> None)
      else if n = 8 \<and> s ! 2 = CHR '':'' \<and> s ! 5 = CHR '':'' then
        (case (digits (take 2 s), digits (take 2 (drop 3 s)), digits (drop 6 s)) of
           (Some h, Some m, Some sec) \<Rightarrow> Some (h, m, sec, 0)
         | _ \<Rightarrow> None)
      else if (n = 12 \<or> n = 15) \<and> s ! 2 = CHR '':'' \<and> s ! 5 = CHR '':'' \<and> s ! 8 = CHR ''.'' then
        (case (digits (take 2 s), digits (take 2 (drop 3 s)), digits (take 2 (drop 6 s)),
               digits (drop 9 s)) of
           (Some h, Some m, Some sec, Some f) \<Rightarrow> Some (h, m, sec, if n = 12 then f * 1000 else f)
         | _ \<Rightarrow> None)
      else None)"

text \<open>The time part: the clock reading up to the first sign, then the offset, whose text
  has 5, 8 or 15 characters and whose size must stay below 24 hours.\<close>

definition parse_isoformat_time :: "string \<Rightarrow> ((int \<times> int \<times> int \<times> int) \<times> int option) option" where
  "parse_isoformat_time s =
     (let timestr = takeWhile (\<lambda>c. c \<noteq> CHR ''+'' \<and> c \<noteq> CHR ''-'') s;
          rest = dropWhile (\<lambda>c. c \<noteq> CHR ''+'' \<and> c \<noteq> CHR ''-'') s
      in case parse_hh_mm_ss_ff timestr of
           None \<Rightarrow> None
         | Some comps \<Rightarrow>
             (case rest of
                [] \<Rightarrow> Some (comps, None)
              | sg # tzstr \<Rightarrow>
                  if length tzstr \<in> {5, 8, 15} then
                    (case parse_hh_mm_ss_ff tzstr of
                       None \<Rightarrow> None
                     | Some (h, m, sec, f) \<Rightarrow>
                         let off = (if sg = CHR ''-'' then - 1 else 1) *
                                   (((h * 60 + m) * 60 + sec) * 1000000 + f)
                         in if \<bar>off\<bar> < DAY_US then Some (comps, Some off) else None)
                  else None))"

definition fromisoformat :: "string \<Rightarrow> py_exception + datetime" where
  "fromisoformat s =
     (case parse_isoformat_date (take 10 s) of
        None \<Rightarrow> Inl ValueError
      | Some (year, month, day) \<Rightarrow>
          (case (if length s = 10 then Some ((0, 0, 0, 0), None)
                 else parse_isoformat_time (drop 11 s)) of
             None \<Rightarrow> Inl ValueError
           | Some ((hh, mm, ss, us), off) \<Rightarrow>
               if 1 \<le> year \<and> year \<le> 9999 \<and> 1 \<le> month \<and> month \<le> 12
                  \<and> 1 \<le> day \<and> day \<le> days_in_month year month
                  \<and> hh \<le> 23 \<and> mm \<le> 59 \<and> ss \<le> 59
               then Inr \<lparr>ticks = (ymd2ord year month day - 1) * DAY_US
                                 + ((hh * 60 + mm) * 60 + ss) * 1000000 + us,
                         utcoffset = off\<rparr>
               else Inl ValueError))"

section \<open>The program and its surroundings\<close>

text \<open>
  What the process can observe: the environment variables, the wall clock read by
  \<^verbatim>\<open>datetime.now()\<close>, the answer of the network to a request, and the help text that
  \<^verbatim>\<open>argparse\<close> formats.  What it leaves behind: the texts given to \<^verbatim>\<open>print\<close> on each
  stream, one list element per call, and the calls made to \<^verbatim>\<open>requests.get\<close>.
\<close>

datatype param = PInt int | PStr string

record request =
  url :: string
  headers :: "(string \<times> string) list"
  params :: "(string \<times> param) list option"

text \<open>A reply as \<^verbatim>\<open>requests\<close> presents it: status line, final URL, and what
  \<^verbatim>\<open>response.json()\<close> gives for the body (the decoded value, or the exception it raises).\<close>

record response =
  status_code :: int
  reason :: string
  resp_url :: string
  json_result :: "py_exception + json"

datatype transport =
    Fails string
  | Replies response

text \<open>\<open>Fails e\<close>: \<^verbatim>\<open>requests.get\<close> itself raises a \<^verbatim>\<open>RequestException\<close> with text \<open>e\<close>
  (connection refused, timeout, invalid URL).\<close>

record environment =
  environ :: "string \<Rightarrow> string option"
  clock :: int
  network :: "request \<Rightarrow> transport"
  help_text :: "string list"

record world =
  stdout :: "string list"
  stderr :: "string list"
  http_calls :: "request list"

text \<open>How a piece of code ends: it returns a value, it calls \<^verbatim>\<open>sys.exit\<close>, or an
  exception leaves it.\<close>

datatype 'a ctl = Return 'a | Exit int | Raise py_exception

definition print_out :: "string \<Rightarrow> world \<Rightarrow> world" where
  "print_out s w = w\<lparr>stdout := stdout w @ [s]\<rparr>"

definition print_err :: "string \<Rightarrow> world \<Rightarrow> world" where
  "print_err s w = w\<lparr>stderr := stderr w @ [s]\<rparr>"

subsection \<open>\<^verbatim>\<open>api_get\<close>\<close>

text \<open>\<^verbatim>\<open>response.raise_for_status()\<close> raises \<^verbatim>\<open>HTTPError\<close>, a \<^verbatim>\<open>RequestException\<close>, for
  the status codes 400 to 599 and for no other.\<close>

definition raise_for_status :: "response \<Rightarrow> py_exception option" where
  "raise_for_status r =
     (if 400 \<le> status_code r \<and> status_code r < 500 then
        Some (RequestException (str_int (status_code r) @ '' Client Error: '' @ reason r
                                @ '' for url: '' @ resp_url r))
      else if 500 \<le> status_code r \<and> status_code r < 600 then
        Some (RequestException (str_int (status_code r) @ '' Server Error: '' @ reason r
                                @ '' for url: '' @ resp_url r))
      else None)"

text \<open>The three statements of the \<^verbatim>\<open>try\<close> block.\<close>

definition try_block :: "(request \<Rightarrow> transport) \<Rightarrow> request \<Rightarrow> py_exception + json" where
  "try_block net req =
     (case net req of
        Fails e \<Rightarrow> Inl (RequestException e)
      | Replies r \<Rightarrow>
          (case raise_for_status r of
             Some e \<Rightarrow> Inl e
           | None \<Rightarrow> json_result r))"

definition api_get ::
  "environment \<Rightarrow> string \<Rightarrow> string \<Rightarrow> string \<Rightarrow> (string \<times> param) list option \<Rightarrow> world
    \<Rightarrow> json ctl \<times> world" where
  "api_get env base_url secret endpoint ps w =
     (let hs = [(''API-SECRET'', secret)];
          req = \<lparr>url = base_url @ endpoint, headers = hs, params = ps\<rparr>;
          w1 = w\<lparr>http_calls := http_calls w @ [req]\<rparr>
      in case try_block (network env) req of
           Inr v \<Rightarrow> (Return v, w1)
         | Inl exn \<Rightarrow>
             (case exn of
                RequestException e \<Rightarrow> (Exit 1, print_err (''Error: '' @ e) w1)
              | _ \<Rightarrow> (Raise exn, w1)))"

subsection \<open>Arguments\<close>

datatype subcommand = Get | History

text \<open>The command line as typed: each option with its value when it was given.\<close>

record cmdline =
  opt_host :: "string option"
  opt_port :: "string option"
  opt_api_secret :: "string option"
  opt_command :: "subcommand option"
  opt_days_ago :: "int option"
  opt_period :: "int option"
  opt_jsonl :: bool

text \<open>The namespace \<^verbatim>\<open>parse_args\<close> returns.\<close>

record args =
  host :: string
  port :: string
  api_secret :: string
  command :: "subcommand option"
  days_ago :: int
  period :: int
  jsonl :: bool

definition DEFAULT_API_SECRET :: "environment \<Rightarrow> string" where
  "DEFAULT_API_SECRET env =
     (case environ env ''NIGHTSCOUT_API_SECRET'' of Some v \<Rightarrow> v | None \<Rightarrow> ''soilentgreenandblue'')"

definition DEFAULT_HOST :: "environment \<Rightarrow> string" where
  "DEFAULT_HOST env =
     (case environ env ''NIGHTSCOUT_HOST'' of Some v \<Rightarrow> v | None \<Rightarrow> ''127.0.0.1'')"

definition DEFAULT_PORT :: "environment \<Rightarrow> string" where
  "DEFAULT_PORT env =
     (case environ env ''NIGHTSCOUT_PORT'' of Some v \<Rightarrow> v | None \<Rightarrow> ''80'')"

text \<open>\<^verbatim>\<open>argparse\<close>: an option that was given has its value, any other has its
  \<^verbatim>\<open>default=\<close>.\<close>

definition parse_args :: "environment \<Rightarrow> cmdline \<Rightarrow> args" where
  "parse_args env cl =
     \<lparr>host = (case opt_host cl of Some v \<Rightarrow> v | None \<Rightarrow> DEFAULT_HOST env),
      port = (case opt_port cl of Some v \<Rightarrow> v | None \<Rightarrow> DEFAULT_PORT env),
      api_secret = (case opt_api_secret cl of Some v \<Rightarrow> v | None \<Rightarrow> DEFAULT_API_SECRET env),
      command = opt_command cl,
      days_ago = (case opt_days_ago cl of Some v \<Rightarrow> v | None \<Rightarrow> 0),
      period = (case opt_period cl of Some v \<Rightarrow> v | None \<Rightarrow> 1440),
      jsonl = opt_jsonl cl\<rparr>"

subsection \<open>\<^verbatim>\<open>cmd_get\<close>\<close>

text \<open>Lines 37 to 44: the text printed for a non-empty answer.\<close>

definition get_line :: "json \<Rightarrow> py_exception + string" where
  "get_line entries =
     and_then (subscript_0 entries) (\<lambda>entry.
     and_then (subscript_key entry ''dateString'') (\<lambda>ds.
     and_then (replace_method ds CHR ''Z'' ''+00:00'') (\<lambda>txt.
     and_then (fromisoformat txt) (\<lambda>timestamp.
     and_then (get_method entry ''sgv'' (JStr ''N/A'')) (\<lambda>val.
     and_then (get_method entry ''units'' (JStr ''mg/dL'')) (\<lambda>units.
     and_then (get_method entry ''direction'' (JStr [])) (\<lambda>direction.
       Inr (isoformat timestamp @ '' '' @ py_str val @ '' '' @ py_str units @ '' ''
            @ py_str direction))))))))"

definition cmd_get :: "environment \<Rightarrow> args \<Rightarrow> world \<Rightarrow> unit ctl \<times> world" where
  "cmd_get env a w =
     (let base_url = ''http://'' @ host a @ '':'' @ port a in
      case api_get env base_url (api_secret a) ''/api/v1/entries.json''
             (Some [(''count'', PInt 1)]) w of
        (Exit n, w1) \<Rightarrow> (Exit n, w1)
      | (Raise e, w1) \<Rightarrow> (Raise e, w1)
      | (Return entries, w1) \<Rightarrow>
          if \<not> truthy entries then (Return (), print_out ''No data available'' w1)
          else (case get_line entries of
                  Inl e \<Rightarrow> (Raise e, w1)
                | Inr s \<Rightarrow> (Return (), print_out s w1)))"

subsection \<open>\<^verbatim>\<open>cmd_history\<close>\<close>

text \<open>\<^verbatim>\<open>datetime.now()\<close> without a time zone argument is naive.\<close>

definition datetime_now :: "environment \<Rightarrow> datetime" where
  "datetime_now env = \<lparr>ticks = clock env, utcoffset = None\<rparr>"

text \<open>Lines 51 and 52.\<close>

definition time_range :: "datetime \<Rightarrow> int \<Rightarrow> int \<Rightarrow> py_exception + (datetime \<times> datetime)" where
  "time_range now d p =
     and_then (timedelta_days d) (\<lambda>td_days.
     and_then (datetime_sub now td_days) (\<lambda>end_time.
     and_then (timedelta_minutes p) (\<lambda>td_minutes.
     and_then (datetime_sub end_time td_minutes) (\<lambda>start_time.
       Inr (start_time, end_time)))))"

text \<open>Lines 67 to 73: the body of the JSONL loop.\<close>

definition jsonl_line :: "json \<Rightarrow> py_exception + string" where
  "jsonl_line entry =
     and_then (get_method entry ''dateString'' JNull) (\<lambda>ts.
     and_then (get_method entry ''sgv'' JNull) (\<lambda>sgv.
     and_then (get_method entry ''units'' (JStr ''mg/dL'')) (\<lambda>units.
     and_then (get_method entry ''direction'' (JStr [])) (\<lambda>direction.
       Inr (json_dumps (JObj [(''timestamp'', ts), (''sgv'', sgv), (''units'', units),
                              (''direction'', direction)]))))))"

text \<open>Lines 77 to 80: the body of the human-readable loop.\<close>

definition human_line :: "json \<Rightarrow> py_exception + string" where
  "human_line entry =
     and_then (get_method entry ''dateString'' JNull) (\<lambda>timestamp.
     and_then (get_method entry ''sgv'' (JStr ''N/A'')) (\<lambda>val.
     and_then (get_method entry ''units'' (JStr ''mg/dL'')) (\<lambda>units.
       Inr (py_str timestamp @ '' '' @ py_str val @ '' '' @ py_str units))))"

text \<open>\<^verbatim>\<open>for entry in entries: print(body(entry))\<close>; an exception in the body ends the loop
  and keeps what was printed before.\<close>

fun print_each :: "(json \<Rightarrow> py_exception + string) \<Rightarrow> json list \<Rightarrow> world \<Rightarrow> unit ctl \<times> world" where
  "print_each body [] w = (Return (), w)"
| "print_each body (entry # rest) w =
     (case body entry of
        Inl e \<Rightarrow> (Raise e, w)
      | Inr s \<Rightarrow> print_each body rest (print_out s w))"

definition cmd_history :: "environment \<Rightarrow> args \<Rightarrow> world \<Rightarrow> unit ctl \<times> world" where
  "cmd_history env a w =
     (let base_url = ''http://'' @ host a @ '':'' @ port a in
      case time_range (datetime_now env) (days_ago a) (period a) of
        Inl e \<Rightarrow> (Raise e, w)
      | Inr (start_time, end_time) \<Rightarrow>
          (let ps = [(''find[dateString][$gte]'', PStr (isoformat start_time @ ''Z'')),
                     (''find[dateString][$lte]'', PStr (isoformat end_time @ ''Z'')),
                     (''count'', PInt 10000)]
           in (case api_get env base_url (api_secret a) ''/api/v1/entries.json'' (Some ps) w of
                 (Exit n, w1) \<Rightarrow> (Exit n, w1)
               | (Raise e, w1) \<Rightarrow> (Raise e, w1)
               | (Return entries, w1) \<Rightarrow>
                   (case iterate entries of
                      Inl e \<Rightarrow> (Raise e, w1)
                    | Inr es \<Rightarrow>
                        print_each (if jsonl a then jsonl_line else human_line) es w1))))"

subsection \<open>\<^verbatim>\<open>main\<close> and the interpreter around it\<close>

definition main :: "environment \<Rightarrow> cmdline \<Rightarrow> world \<Rightarrow> unit ctl \<times> world" where
  "main env cl w =
     (let a = parse_args env cl in
      case command a of
        None \<Rightarrow> (Exit 1, w\<lparr>stdout := stdout w @ help_text env\<rparr>)
      | Some Get \<Rightarrow> cmd_get env a w
      | Some History \<Rightarrow> cmd_history env a w)"

text \<open>
  The process as seen from outside.  Returning from \<^verbatim>\<open>main\<close> is exit status 0,
  \<^verbatim>\<open>sys.exit(n)\<close> is exit status \<open>n\<close>, and an exception nobody catches makes the interpreter
  write a traceback to the error stream (its first line is recorded) and exit with status 1.
\<close>

record finished =
  out :: "string list"
  err :: "string list"
  exit_status :: int
  calls :: "request list"

definition run :: "environment \<Rightarrow> cmdline \<Rightarrow> finished" where
  "run env cl =
     (case main env cl \<lparr>stdout = [], stderr = [], http_calls = []\<rparr> of
        (Return u, w) \<Rightarrow>
          \<lparr>out = stdout w, err = stderr w, exit_status = 0, calls = http_calls w\<rparr>
      | (Exit n, w) \<Rightarrow>
          \<lparr>out = stdout w, err = stderr w, exit_status = n, calls = http_calls w\<rparr>
      | (Raise e, w) \<Rightarrow>
          \<lparr>out = stdout w, err = stderr w @ [''Traceback (most recent call last):''],
           exit_status = 1, calls = http_calls w\<rparr>)"

section \<open>Notions used in the statements\<close>

text \<open>The instants a \<^verbatim>\<open>datetime\<close> can hold: the years 1 to 9999.\<close>

definition in_range :: "int \<Rightarrow> bool" where
  "in_range t = (0 \<le> t \<and> t < MAXORDINAL * DAY_US)"


text \<open>The three ways the request can fail: \<^verbatim>\<open>requests.get\<close> raises, the status is one
  that \<^verbatim>\<open>raise_for_status\<close> reports, or the body does not decode.\<close>

fun transport_failure :: "transport \<Rightarrow> bool" where
  "transport_failure (Fails e) = True"
| "transport_failure (Replies r) =
     ((400 \<le> status_code r \<and> status_code r < 600) \<or> isl (json_result r))"

text \<open>The order of precedence the specification gives for a setting: command line,
  then environment variable, then built-in default.\<close>

definition spec_precedence :: "string option \<Rightarrow> string option \<Rightarrow> string \<Rightarrow> string" where
  "spec_precedence given_on_cli set_in_env builtin =
     (case given_on_cli of
        Some v \<Rightarrow> v
      | None \<Rightarrow> (case set_in_env of Some v \<Rightarrow> v | None \<Rightarrow> builtin))"

subsection \<open>Concrete inputs\<close>

text \<open>Midnight of 2024-01-01 on the local clock.\<close>

definition example_clock :: int where
  "example_clock = 63839664000000000"

definition serving :: "int \<Rightarrow> string \<Rightarrow> json \<Rightarrow> request \<Rightarrow> transport" where
  "serving code phrase body req =
     Replies \<lparr>status_code = code, reason = phrase, resp_url = url req, json_result = Inr body\<rparr>"

definition refusing :: "request \<Rightarrow> transport" where
  "refusing req = Fails ''Connection refused''"

definition garbling :: "py_exception \<Rightarrow> request \<Rightarrow> transport" where
  "garbling exn req =
     Replies \<lparr>status_code = 200, reason = ''OK'', resp_url = url req, json_result = Inl exn\<rparr>"

definition example_env :: "(string \<times> string) list \<Rightarrow> (request \<Rightarrow> transport) \<Rightarrow> environment" where
  "example_env vars net =
     \<lparr>environ = map_of vars, clock = example_clock, network = net,
      help_text = [''usage: nightscout [-h] {get,history} ...'']\<rparr>"

definition example_cmdline :: "subcommand \<Rightarrow> cmdline" where
  "example_cmdline c =
     \<lparr>opt_host = None, opt_port = None, opt_api_secret = None, opt_command = Some c,
      opt_days_ago = None, opt_period = None, opt_jsonl = False\<rparr>"

definition example_request :: "(string \<times> param) list \<Rightarrow> request" where
  "example_request ps =
     \<lparr>url = ''http://127.0.0.1:80/api/v1/entries.json'',
      headers = [(''API-SECRET'', ''soilentgreenandblue'')],
      params = Some ps\<rparr>"

section \<open>Auxiliary facts\<close>

subsection \<open>Date arithmetic\<close>

lemma datetime_add_eq:
  "datetime_add dt td =
     (if in_range (ticks dt + td) then Inr (dt\<lparr>ticks := ticks dt + td\<rparr>) else Inl OverflowError)"
  unfolding datetime_add_def timedelta_def in_range_def DAY_US_def MAXORDINAL_def
  by (auto split: sum.splits if_splits)

lemma datetime_sub_eq:
  "in_range (ticks dt) \<Longrightarrow> datetime_sub dt td =
     (if in_range (ticks dt - td) then Inr (dt\<lparr>ticks := ticks dt - td\<rparr>) else Inl OverflowError)"
  unfolding datetime_sub_def datetime_add_eq
  unfolding timedelta_def in_range_def DAY_US_def MAXORDINAL_def
  by (auto split: sum.splits if_splits)

lemma timedelta_days_eq:
  "timedelta_days d = (if \<bar>d\<bar> > 999999999 then Inl OverflowError else Inr (d * DAY_US))"
  unfolding timedelta_days_def timedelta_def DAY_US_def by simp

lemma minutes_div_day: "p * 60000000 div 86400000000 = p div (1440::int)"
proof -
  have "p * 60000000 div (60000000 * 1440) = p * 60000000 div 60000000 div (1440::int)"
    by (rule zdiv_zmult2_eq) simp
  then show ?thesis by simp
qed

lemma timedelta_minutes_eq:
  "timedelta_minutes p =
     (if \<bar>p div 1440\<bar> > 999999999 then Inl OverflowError else Inr (p * 60000000))"
  unfolding timedelta_minutes_def timedelta_def DAY_US_def minutes_div_day by simp

lemma time_range_eq:
  assumes "in_range (ticks now)"
  shows "time_range now d p =
     (if in_range (ticks now - d * DAY_US) \<and> in_range (ticks now - d * DAY_US - p * 60000000)
      then Inr (now\<lparr>ticks := ticks now - d * DAY_US - p * 60000000\<rparr>,
                now\<lparr>ticks := ticks now - d * DAY_US\<rparr>)
      else Inl OverflowError)"
proof (cases "in_range (ticks now - d * DAY_US)")
  case False
  then show ?thesis
    using assms unfolding time_range_def and_then_def
    by (simp add: timedelta_days_eq datetime_sub_eq)
next
  case True
  have d: "\<bar>d\<bar> \<le> 999999999"
    using assms True unfolding in_range_def DAY_US_def MAXORDINAL_def by linarith
  have e: "datetime_sub now (d * DAY_US) = Inr (now\<lparr>ticks := ticks now - d * DAY_US\<rparr>)"
    using assms True by (simp add: datetime_sub_eq)
  show ?thesis
  proof (cases "in_range (ticks now - d * DAY_US - p * 60000000)")
    case False
    then show ?thesis
      using True d e unfolding time_range_def and_then_def
      by (simp add: timedelta_days_eq timedelta_minutes_eq datetime_sub_eq)
  next
    case T2: True
    have p: "\<bar>p div 1440\<bar> \<le> 999999999"
      using True T2 unfolding in_range_def DAY_US_def MAXORDINAL_def by linarith
    show ?thesis
      using True T2 d e p unfolding time_range_def and_then_def
      by (simp add: timedelta_days_eq timedelta_minutes_eq datetime_sub_eq)
  qed
qed


subsection \<open>The shape of a formatted date and time\<close>













subsection \<open>The two commands, unfolded\<close>

lemma main_get:
  assumes "opt_command cl = Some Get"
  shows "main env cl w =
     (let a = parse_args env cl;
          req = \<lparr>url = ''http://'' @ host a @ '':'' @ port a @ ''/api/v1/entries.json'',
                 headers = [(''API-SECRET'', api_secret a)],
                 params = Some [(''count'', PInt 1)]\<rparr>;
          w1 = w\<lparr>http_calls := http_calls w @ [req]\<rparr>
      in case try_block (network env) req of
           Inl exn \<Rightarrow>
             (case exn of
                RequestException e \<Rightarrow> (Exit 1, print_err (''Error: '' @ e) w1)
              | _ \<Rightarrow> (Raise exn, w1))
         | Inr entries \<Rightarrow>
             if \<not> truthy entries then (Return (), print_out ''No data available'' w1)
             else (case get_line entries of
                     Inl e \<Rightarrow> (Raise e, w1)
                   | Inr s \<Rightarrow> (Return (), print_out s w1)))"
  using assms unfolding main_def cmd_get_def api_get_def Let_def parse_args_def
  by (simp split: sum.splits py_exception.splits)

lemma main_history:
  assumes "opt_command cl = Some History"
  shows "main env cl w =
     (let a = parse_args env cl in
      case time_range (datetime_now env) (days_ago a) (period a) of
        Inl e \<Rightarrow> (Raise e, w)
      | Inr (start_time, end_time) \<Rightarrow>
          (let req = \<lparr>url = ''http://'' @ host a @ '':'' @ port a @ ''/api/v1/entries.json'',
                       headers = [(''API-SECRET'', api_secret a)],
                       params = Some [(''find[dateString][$gte]'', PStr (isoformat start_time @ ''Z'')),
                                      (''find[dateString][$lte]'', PStr (isoformat end_time @ ''Z'')),
                                      (''count'', PInt 10000)]\<rparr>;
               w1 = w\<lparr>http_calls := http_calls w @ [req]\<rparr>
           in (case try_block (network env) req of
                 Inl exn \<Rightarrow>
                   (case exn of
                      RequestException e \<Rightarrow> (Exit 1, print_err (''Error: '' @ e) w1)
                    | _ \<Rightarrow> (Raise exn, w1))
               | Inr entries \<Rightarrow>
                   (case iterate entries of
                      Inl e \<Rightarrow> (Raise e, w1)
                    | Inr es \<Rightarrow> print_each (if jsonl a then jsonl_line else human_line) es w1))))"
  using assms unfolding main_def cmd_history_def api_get_def Let_def parse_args_def
  by (simp split: sum.splits py_exception.splits prod.splits)

subsection \<open>The output loops\<close>

lemma print_each_all:
  assumes "\<And>x. x \<in> set es \<Longrightarrow> body x = Inr (f x)"
  shows "print_each body es w = (Return (), w\<lparr>stdout := stdout w @ map f es\<rparr>)"
  using assms
proof (induction es arbitrary: w)
  case Nil
  then show ?case by simp
next
  case (Cons x xs)
  then show ?case by (simp add: print_out_def)
qed

lemma jsonl_line_obj:
  "jsonl_line (JObj kvs) =
     Inr (json_dumps (JObj [(''timestamp'', dict_get kvs ''dateString'' JNull),
                            (''sgv'', dict_get kvs ''sgv'' JNull),
                            (''units'', dict_get kvs ''units'' (JStr ''mg/dL'')),
                            (''direction'', dict_get kvs ''direction'' (JStr []))]))"
  unfolding jsonl_line_def and_then_def by simp

lemma human_line_obj:
  "human_line (JObj kvs) =
     Inr (py_str (dict_get kvs ''dateString'' JNull) @ '' ''
          @ py_str (dict_get kvs ''sgv'' (JStr ''N/A'')) @ '' ''
          @ py_str (dict_get kvs ''units'' (JStr ''mg/dL'')))"
  unfolding human_line_def and_then_def by simp


subsection \<open>What a run leaves behind\<close>


lemma run_calls_get:
  assumes "opt_command cl = Some Get"
  shows "calls (run env cl) =
           [\<lparr>url = ''http://'' @ host (parse_args env cl) @ '':'' @ port (parse_args env cl)
                    @ ''/api/v1/entries.json'',
             headers = [(''API-SECRET'', api_secret (parse_args env cl))],
             params = Some [(''count'', PInt 1)]\<rparr>]"
  unfolding run_def main_get [OF assms] Let_def print_err_def print_out_def
  by (simp split: sum.splits py_exception.splits)

lemma print_each_calls: "http_calls (snd (print_each body es w)) = http_calls w"
  by (induction es arbitrary: w) (auto simp: print_out_def split: sum.splits)

lemma print_each_stderr: "stderr (snd (print_each body es w)) = stderr w"
  by (induction es arbitrary: w) (auto simp: print_out_def split: sum.splits)

lemma run_calls_history:
  assumes "opt_command cl = Some History"
  shows "calls (run env cl) =
           (case time_range (datetime_now env) (days_ago (parse_args env cl))
                   (period (parse_args env cl)) of
              Inl x \<Rightarrow> []
            | Inr (s, e) \<Rightarrow>
                [\<lparr>url = ''http://'' @ host (parse_args env cl) @ '':'' @ port (parse_args env cl)
                         @ ''/api/v1/entries.json'',
                  headers = [(''API-SECRET'', api_secret (parse_args env cl))],
                  params = Some [(''find[dateString][$gte]'', PStr (isoformat s @ ''Z'')),
                                 (''find[dateString][$lte]'', PStr (isoformat e @ ''Z'')),
                                 (''count'', PInt 10000)]\<rparr>])"
proof -
  have c: "calls (run env cl) = http_calls (snd (main env cl \<lparr>stdout = [], stderr = [], http_calls = []\<rparr>))"
    unfolding run_def by (simp split: prod.splits ctl.splits)
  show ?thesis
    unfolding c main_history [OF assms] Let_def print_err_def
    by (simp add: print_each_calls split: sum.splits py_exception.splits prod.splits)
qed

lemma transport_failure_iff:
  "transport_failure (net req) \<longleftrightarrow> isl (try_block net req)"
  unfolding try_block_def raise_for_status_def
  by (cases "net req") (auto split: option.splits if_splits)

lemma run_calls_none:
  assumes "opt_command cl = None"
  shows "calls (run env cl) = []"
  using assms unfolding run_def main_def parse_args_def by simp

lemma run_failed:
  assumes "calls (run env cl) = [req]" and "try_block (network env) req = Inl exn"
  shows "run env cl =
           \<lparr>out = [],
            err = [case exn of RequestException e \<Rightarrow> ''Error: '' @ e
                   | _ \<Rightarrow> ''Traceback (most recent call last):''],
            exit_status = 1, calls = [req]\<rparr>"
proof (cases "opt_command cl")
  case None
  then show ?thesis using assms(1) run_calls_none [of cl env] by simp
next
  case (Some c)
  show ?thesis
  proof (cases c)
    case Get
    with Some have g: "opt_command cl = Some Get" by simp
    have r: "req = \<lparr>url = ''http://'' @ host (parse_args env cl) @ '':'' @ port (parse_args env cl)
                    @ ''/api/v1/entries.json'',
             headers = [(''API-SECRET'', api_secret (parse_args env cl))],
             params = Some [(''count'', PInt 1)]\<rparr>"
      using assms(1) run_calls_get [OF g, of env] by simp
    show ?thesis
      using assms(2) unfolding r run_def main_get [OF g] Let_def print_err_def
      by (cases exn) simp_all
  next
    case History
    with Some have h: "opt_command cl = Some History" by simp
    obtain s e where t: "time_range (datetime_now env) (days_ago (parse_args env cl))
                   (period (parse_args env cl)) = Inr (s, e)"
      using assms(1) run_calls_history [OF h, of env]
      by (cases "time_range (datetime_now env) (days_ago (parse_args env cl))
                   (period (parse_args env cl))") auto
    have r: "req = \<lparr>url = ''http://'' @ host (parse_args env cl) @ '':'' @ port (parse_args env cl)
                         @ ''/api/v1/entries.json'',
                  headers = [(''API-SECRET'', api_secret (parse_args env cl))],
                  params = Some [(''find[dateString][$gte]'', PStr (isoformat s @ ''Z'')),
                                 (''find[dateString][$lte]'', PStr (isoformat e @ ''Z'')),
                                 (''count'', PInt 10000)]\<rparr>"
      using assms(1) run_calls_history [OF h, of env] t by simp
    show ?thesis
      using assms(2) unfolding r run_def main_history [OF h] Let_def print_err_def t
      by (cases exn) simp_all
  qed
qed

lemma api_get_failed:
  assumes "try_block (network env) \<lparr>url = b @ ep, headers = [(''API-SECRET'', k)], params = ps\<rparr> = Inl exn"
  shows "fst (api_get env b k ep ps w) \<noteq> Return v"
  using assms unfolding api_get_def Let_def by (cases exn) simp_all


lemma try_block_reply:
  assumes "network env req = Replies r" and "raise_for_status r = None"
  shows "try_block (network env) req = json_result r"
  using assms unfolding try_block_def by simp

lemma run_get_ok:
  assumes "opt_command cl = Some Get"
    and "calls (run env cl) = [req]"
    and "try_block (network env) req = Inr v"
  shows "run env cl =
           (if \<not> truthy v
            then \<lparr>out = [''No data available''], err = [], exit_status = 0, calls = [req]\<rparr>
            else (case get_line v of
                    Inl e \<Rightarrow> \<lparr>out = [], err = [''Traceback (most recent call last):''],
                               exit_status = 1, calls = [req]\<rparr>
                  | Inr s \<Rightarrow> \<lparr>out = [s], err = [], exit_status = 0, calls = [req]\<rparr>))"
proof -
  have r: "req = \<lparr>url = ''http://'' @ host (parse_args env cl) @ '':'' @ port (parse_args env cl)
                    @ ''/api/v1/entries.json'',
             headers = [(''API-SECRET'', api_secret (parse_args env cl))],
             params = Some [(''count'', PInt 1)]\<rparr>"
    using assms(2) run_calls_get [OF assms(1), of env] by simp
  show ?thesis
    using assms(3) unfolding r run_def main_get [OF assms(1)] Let_def print_out_def
    by (simp split: sum.splits)
qed


lemma history_request:
  assumes "opt_command cl = Some History"
    and "calls (run env cl) = [req]"
  obtains s e where
    "time_range (datetime_now env) (days_ago (parse_args env cl)) (period (parse_args env cl)) = Inr (s, e)"
    and "req = \<lparr>url = ''http://'' @ host (parse_args env cl) @ '':'' @ port (parse_args env cl)
                         @ ''/api/v1/entries.json'',
                  headers = [(''API-SECRET'', api_secret (parse_args env cl))],
                  params = Some [(''find[dateString][$gte]'', PStr (isoformat s @ ''Z'')),
                                 (''find[dateString][$lte]'', PStr (isoformat e @ ''Z'')),
                                 (''count'', PInt 10000)]\<rparr>"
  using assms(2) run_calls_history [OF assms(1), of env]
  by (cases "time_range (datetime_now env) (days_ago (parse_args env cl)) (period (parse_args env cl))")
     auto

lemma main_history_ok:
  assumes "opt_command cl = Some History"
    and "calls (run env cl) = [req]"
    and "try_block (network env) req = Inr (JList es)"
  shows "main env cl w =
           print_each (if opt_jsonl cl then jsonl_line else human_line) es
             (w\<lparr>http_calls := http_calls w @ [req]\<rparr>)"
proof -
  from history_request [OF assms(1,2)] obtain s e where
    t: "time_range (datetime_now env) (days_ago (parse_args env cl)) (period (parse_args env cl)) = Inr (s, e)"
    and r: "req = \<lparr>url = ''http://'' @ host (parse_args env cl) @ '':'' @ port (parse_args env cl)
                         @ ''/api/v1/entries.json'',
                  headers = [(''API-SECRET'', api_secret (parse_args env cl))],
                  params = Some [(''find[dateString][$gte]'', PStr (isoformat s @ ''Z'')),
                                 (''find[dateString][$lte]'', PStr (isoformat e @ ''Z'')),
                                 (''count'', PInt 10000)]\<rparr>"
    by blast
  have j: "jsonl (parse_args env cl) = opt_jsonl cl"
    by (simp add: parse_args_def)
  show ?thesis
    using assms(3) unfolding r main_history [OF assms(1)] Let_def t j by simp
qed

lemma run_history_objects:
  assumes "opt_command cl = Some History"
    and "calls (run env cl) = [req]"
    and "try_block (network env) req = Inr (JList (map JObj es))"
  shows "run env cl =
           \<lparr>out = map (\<lambda>kvs. projr ((if opt_jsonl cl then jsonl_line else human_line) (JObj kvs))) es,
            err = [], exit_status = 0, calls = [req]\<rparr>"
proof -
  define body where "body = (if opt_jsonl cl then jsonl_line else human_line)"
  have b: "\<And>x. x \<in> set (map JObj es) \<Longrightarrow> body x = Inr (projr (body x))"
    unfolding body_def by (auto simp: jsonl_line_obj human_line_obj)
  have m: "main env cl \<lparr>stdout = [], stderr = [], http_calls = []\<rparr> =
             (Return (), \<lparr>stdout = map (\<lambda>x. projr (body x)) (map JObj es), stderr = [],
                           http_calls = [req]\<rparr>)"
    unfolding main_history_ok [OF assms] body_def [symmetric]
    using print_each_all [of "map JObj es" body "\<lambda>x. projr (body x)", OF b] by simp
  show ?thesis
    unfolding run_def m body_def by (simp add: comp_def)
qed

subsection \<open>The text of a JSONL line\<close>

lemma json_keys:
  \<open>json_string ''timestamp'' = ''"timestamp"''\<close>
  \<open>json_string ''sgv'' = ''"sgv"''\<close>
  \<open>json_string ''units'' = ''"units"''\<close>
  \<open>json_string ''direction'' = ''"direction"''\<close>
  by (simp_all add: json_string_def json_char_def)

lemma jsonl_line_text:
  \<open>jsonl_line (JObj kvs) =
     Inr (''{"timestamp": '' @ json_dumps (dict_get kvs ''dateString'' JNull)
          @ '', "sgv": '' @ json_dumps (dict_get kvs ''sgv'' JNull)
          @ '', "units": '' @ json_dumps (dict_get kvs ''units'' (JStr ''mg/dL''))
          @ '', "direction": '' @ json_dumps (dict_get kvs ''direction'' (JStr []))
          @ ''}'')\<close>
  unfolding jsonl_line_obj by (simp add: json_keys)


subsection \<open>Evaluated dates\<close>


section \<open>The claims\<close>

subsection \<open>C1: the time range of a history invocation\<close>

text \<open>
  C1, as amended.  For a history invocation with \<^verbatim>\<open>--days-ago=D\<close> and \<^verbatim>\<open>--period=P\<close>, started
  at a valid local time: when now minus \<open>D\<close> days and that instant minus \<open>P\<close> minutes both
  lie in the years 1 to 9999, the end time is now minus \<open>D\<close> days and the start time is the
  end time minus \<open>P\<close> minutes, both naive; in every other case the handler stops with
  \<^verbatim>\<open>OverflowError\<close>.  The start time is at or before the end time exactly when \<open>P\<close> is not
  negative.
\<close>

theorem history_time_range:
  assumes "in_range (clock env)"
    and "opt_days_ago cl = Some D"
    and "opt_period cl = Some P"
  shows "time_range (datetime_now env) (days_ago (parse_args env cl)) (period (parse_args env cl)) =
           (if in_range (clock env - D * DAY_US) \<and> in_range (clock env - D * DAY_US - P * 60000000)
            then Inr (\<lparr>ticks = clock env - D * DAY_US - P * 60000000, utcoffset = None\<rparr>,
                      \<lparr>ticks = clock env - D * DAY_US, utcoffset = None\<rparr>)
            else Inl OverflowError)
         \<and> (datetime_le \<lparr>ticks = clock env - D * DAY_US - P * 60000000, utcoffset = None\<rparr>
                         \<lparr>ticks = clock env - D * DAY_US, utcoffset = None\<rparr> \<longleftrightarrow> 0 \<le> P)"
proof -
  have "in_range (ticks (datetime_now env))"
    using assms(1) by (simp add: datetime_now_def)
  from time_range_eq [OF this, of D P] show ?thesis
    using assms(2,3) by (simp add: parse_args_def datetime_now_def datetime_le_def)
qed

text \<open>One day back and a period of 90 minutes, from midnight of 2024-01-01.\<close>

theorem history_time_range_witness:
  "in_range (clock (example_env [] refusing))
   \<and> time_range (datetime_now (example_env [] refusing))
        (days_ago (parse_args (example_env [] refusing)
                     ((example_cmdline History)\<lparr>opt_days_ago := Some 1, opt_period := Some 90\<rparr>)))
        (period (parse_args (example_env [] refusing)
                     ((example_cmdline History)\<lparr>opt_days_ago := Some 1, opt_period := Some 90\<rparr>)))
      = Inr (\<lparr>ticks = 63839572200000000, utcoffset = None\<rparr>,
             \<lparr>ticks = 63839577600000000, utcoffset = None\<rparr>)
   \<and> datetime_le \<lparr>ticks = 63839572200000000, utcoffset = None\<rparr>
                  \<lparr>ticks = 63839577600000000, utcoffset = None\<rparr>"
  using history_time_range [of "example_env [] refusing"
          "(example_cmdline History)\<lparr>opt_days_ago := Some 1, opt_period := Some 90\<rparr>" 1 90]
  by (simp add: example_env_def example_cmdline_def example_clock_def in_range_def
        DAY_US_def MAXORDINAL_def)

text \<open>
  C1 as written fails for a negative period, which \<^verbatim>\<open>type=int\<close> accepts: with
  \<^verbatim>\<open>--days-ago=0 --period=-1\<close> the start time is one minute after the end time.
\<close>

theorem negative_period_counterexample:
  "time_range (datetime_now (example_env [] refusing))
        (days_ago (parse_args (example_env [] refusing)
                     ((example_cmdline History)\<lparr>opt_days_ago := Some 0, opt_period := Some (- 1)\<rparr>)))
        (period (parse_args (example_env [] refusing)
                     ((example_cmdline History)\<lparr>opt_days_ago := Some 0, opt_period := Some (- 1)\<rparr>)))
      = Inr (\<lparr>ticks = 63839664060000000, utcoffset = None\<rparr>,
             \<lparr>ticks = 63839664000000000, utcoffset = None\<rparr>)
   \<and> \<not> datetime_le \<lparr>ticks = 63839664060000000, utcoffset = None\<rparr>
                    \<lparr>ticks = 63839664000000000, utcoffset = None\<rparr>"
  by (simp add: time_range_def and_then_def timedelta_days_def timedelta_minutes_def timedelta_def
        datetime_sub_def datetime_add_def datetime_now_def parse_args_def example_env_def
        example_cmdline_def example_clock_def datetime_le_def DAY_US_def MAXORDINAL_def)


subsection \<open>C2: failures of the request\<close>

text \<open>
  C2, as amended.  When the single GET request of an invocation fails, that is, when
  \<^verbatim>\<open>requests.get\<close> raises, or the reply has a status from 400 to 599, or its body does not
  decode as JSON, then nothing is written to standard output, the error stream is not empty,
  the exit status is 1, and \<^verbatim>\<open>api_get\<close> returns no value to the handler.  For a failed
  connection the error stream holds exactly \<^verbatim>\<open>Error: \<close> followed by the text of the exception.
\<close>

theorem transport_failure_fatal:
  assumes "calls (run env cl) = [req]"
    and "transport_failure (network env req)"
  shows "out (run env cl) = [] \<and> err (run env cl) \<noteq> [] \<and> exit_status (run env cl) = 1
         \<and> (\<forall>e. network env req = Fails e \<longrightarrow> err (run env cl) = [''Error: '' @ e])
         \<and> (\<forall>b k ep ps w v. req = \<lparr>url = b @ ep, headers = [(''API-SECRET'', k)], params = ps\<rparr>
               \<longrightarrow> fst (api_get env b k ep ps w) \<noteq> Return v)"
proof -
  from assms(2) obtain exn where x: "try_block (network env) req = Inl exn"
    unfolding transport_failure_iff by (cases "try_block (network env) req") auto
  have f: "\<And>e. network env req = Fails e \<Longrightarrow> exn = RequestException e"
    using x unfolding try_block_def by simp
  show ?thesis
    using run_failed [OF assms(1) x] api_get_failed x f by auto
qed

text \<open>A refused connection, a status 500 and a body that is not JSON, the last with either
  class of decoding error.\<close>

theorem transport_failure_fatal_witness:
  "(calls (run (example_env [] refusing) (example_cmdline Get)) = [example_request [(''count'', PInt 1)]]
    \<and> transport_failure (network (example_env [] refusing) (example_request [(''count'', PInt 1)]))
    \<and> out (run (example_env [] refusing) (example_cmdline Get)) = []
    \<and> err (run (example_env [] refusing) (example_cmdline Get)) = [''Error: Connection refused'']
    \<and> exit_status (run (example_env [] refusing) (example_cmdline Get)) = 1)
   \<and> (transport_failure (network (example_env [] (serving 500 ''Internal Server Error'' JNull))
                            (example_request [(''count'', PInt 1)]))
    \<and> out (run (example_env [] (serving 500 ''Internal Server Error'' JNull)) (example_cmdline Get)) = []
    \<and> err (run (example_env [] (serving 500 ''Internal Server Error'' JNull)) (example_cmdline Get)) \<noteq> []
    \<and> exit_status (run (example_env [] (serving 500 ''Internal Server Error'' JNull)) (example_cmdline Get)) = 1)
   \<and> (transport_failure (network (example_env [] (garbling (RequestException ''Expecting value'')))
                            (example_request [(''count'', PInt 1)]))
    \<and> out (run (example_env [] (garbling (RequestException ''Expecting value''))) (example_cmdline Get)) = []
    \<and> err (run (example_env [] (garbling (RequestException ''Expecting value''))) (example_cmdline Get)) \<noteq> []
    \<and> exit_status (run (example_env [] (garbling (RequestException ''Expecting value''))) (example_cmdline Get)) = 1)
   \<and> (transport_failure (network (example_env [] (garbling (JSONDecodeError ''Expecting value'')))
                            (example_request [(''count'', PInt 1)]))
    \<and> out (run (example_env [] (garbling (JSONDecodeError ''Expecting value''))) (example_cmdline Get)) = []
    \<and> err (run (example_env [] (garbling (JSONDecodeError ''Expecting value''))) (example_cmdline Get)) \<noteq> []
    \<and> exit_status (run (example_env [] (garbling (JSONDecodeError ''Expecting value''))) (example_cmdline Get)) = 1)"
proof -
  have c: "\<And>net. calls (run (example_env [] net) (example_cmdline Get)) = [example_request [(''count'', PInt 1)]]"
    using run_calls_get [of "example_cmdline Get"]
    by (simp add: example_cmdline_def example_request_def parse_args_def example_env_def
          DEFAULT_HOST_def DEFAULT_PORT_def DEFAULT_API_SECRET_def)
  have f: "transport_failure (network (example_env [] refusing) (example_request [(''count'', PInt 1)]))"
    "transport_failure (network (example_env [] (serving 500 ''Internal Server Error'' JNull))
                            (example_request [(''count'', PInt 1)]))"
    "transport_failure (network (example_env [] (garbling (RequestException ''Expecting value'')))
                            (example_request [(''count'', PInt 1)]))"
    "transport_failure (network (example_env [] (garbling (JSONDecodeError ''Expecting value'')))
                            (example_request [(''count'', PInt 1)]))"
    by (simp_all add: example_env_def refusing_def serving_def garbling_def)
  have n: "network (example_env [] refusing) (example_request [(''count'', PInt 1)]) = Fails ''Connection refused''"
    by (simp add: example_env_def refusing_def)
  show ?thesis
    using transport_failure_fatal [OF c f(1)] transport_failure_fatal [OF c f(2)]
      transport_failure_fatal [OF c f(3)] transport_failure_fatal [OF c f(4)] c f n
    by simp
qed

text \<open>
  C2 as written fails for a status outside 200-299 that \<^verbatim>\<open>raise_for_status\<close> does not
  report: a reply \<^verbatim>\<open>300 Multiple Choices\<close> whose body is \<^verbatim>\<open>[]\<close> is handed to the handler, which
  prints to standard output and ends with status 0.
\<close>

theorem status_300_counterexample:
  "calls (run (example_env [] (serving 300 ''Multiple Choices'' (JList []))) (example_cmdline Get))
     = [example_request [(''count'', PInt 1)]]
   \<and> network (example_env [] (serving 300 ''Multiple Choices'' (JList [])))
        (example_request [(''count'', PInt 1)])
     = Replies \<lparr>status_code = 300, reason = ''Multiple Choices'',
                resp_url = ''http://127.0.0.1:80/api/v1/entries.json'', json_result = Inr (JList [])\<rparr>
   \<and> out (run (example_env [] (serving 300 ''Multiple Choices'' (JList []))) (example_cmdline Get))
     = [''No data available'']
   \<and> err (run (example_env [] (serving 300 ''Multiple Choices'' (JList []))) (example_cmdline Get)) = []
   \<and> exit_status (run (example_env [] (serving 300 ''Multiple Choices'' (JList []))) (example_cmdline Get)) = 0
   \<and> fst (api_get (example_env [] (serving 300 ''Multiple Choices'' (JList []))) ''http://127.0.0.1:80''
             ''soilentgreenandblue'' ''/api/v1/entries.json'' (Some [(''count'', PInt 1)])
             \<lparr>stdout = [], stderr = [], http_calls = []\<rparr>)
     = Return (JList [])"
  by code_simp

subsection \<open>C3: the request\<close>




subsection \<open>C4: an empty answer\<close>

text \<open>
  C4.  When the request succeeds and the API returns the empty array, \<^verbatim>\<open>get\<close> prints exactly
  \<^verbatim>\<open>No data available\<close> and exits with status 0, and \<^verbatim>\<open>history\<close>, in either output mode,
  prints nothing and exits with status 0; nothing goes to the error stream.
\<close>

theorem empty_array_not_error:
  assumes "calls (run env cl) = [req]"
    and "network env req = Replies r"
    and "raise_for_status r = None"
    and "json_result r = Inr (JList [])"
  shows "(opt_command cl = Some Get \<longrightarrow>
            run env cl = \<lparr>out = [''No data available''], err = [], exit_status = 0, calls = [req]\<rparr>)
         \<and> (opt_command cl = Some History \<longrightarrow>
            run env cl = \<lparr>out = [], err = [], exit_status = 0, calls = [req]\<rparr>)"
proof -
  have t: "try_block (network env) req = Inr (JList [])"
    using try_block_reply [OF assms(2,3)] assms(4) by simp
  have "opt_command cl = Some Get \<Longrightarrow>
          run env cl = \<lparr>out = [''No data available''], err = [], exit_status = 0, calls = [req]\<rparr>"
    using run_get_ok [OF _ assms(1) t] by simp
  moreover have "opt_command cl = Some History \<Longrightarrow>
          run env cl = \<lparr>out = [], err = [], exit_status = 0, calls = [req]\<rparr>"
    using run_history_objects [OF _ assms(1), of "[]"] t by simp
  ultimately show ?thesis by blast
qed

text \<open>An answer \<^verbatim>\<open>200 OK\<close> with body \<^verbatim>\<open>[]\<close>, to \<^verbatim>\<open>get\<close>, to \<^verbatim>\<open>history\<close> and to
  \<^verbatim>\<open>history --jsonl\<close>.\<close>

theorem empty_array_not_error_witness:
  "run (example_env [] (serving 200 ''OK'' (JList []))) (example_cmdline Get) =
     \<lparr>out = [''No data available''], err = [], exit_status = 0,
      calls = [example_request [(''count'', PInt 1)]]\<rparr>
   \<and> run (example_env [] (serving 200 ''OK'' (JList []))) (example_cmdline History) =
     \<lparr>out = [], err = [], exit_status = 0,
      calls = [example_request [(''find[dateString][$gte]'', PStr ''2023-12-31T00:00:00Z''),
                                (''find[dateString][$lte]'', PStr ''2024-01-01T00:00:00Z''),
                                (''count'', PInt 10000)]]\<rparr>
   \<and> run (example_env [] (serving 200 ''OK'' (JList []))) ((example_cmdline History)\<lparr>opt_jsonl := True\<rparr>) =
     \<lparr>out = [], err = [], exit_status = 0,
      calls = [example_request [(''find[dateString][$gte]'', PStr ''2023-12-31T00:00:00Z''),
                                (''find[dateString][$lte]'', PStr ''2024-01-01T00:00:00Z''),
                                (''count'', PInt 10000)]]\<rparr>"
proof -
  let ?env = "example_env [] (serving 200 ''OK'' (JList []))"
  let ?hist = "example_request [(''find[dateString][$gte]'', PStr ''2023-12-31T00:00:00Z''),
                                (''find[dateString][$lte]'', PStr ''2024-01-01T00:00:00Z''),
                                (''count'', PInt 10000)]"
  have c: "calls (run ?env (example_cmdline Get)) = [example_request [(''count'', PInt 1)]]"
    "calls (run ?env (example_cmdline History)) = [?hist]"
    "calls (run ?env ((example_cmdline History)\<lparr>opt_jsonl := True\<rparr>)) = [?hist]"
    by code_simp+
  have n: "\<And>req. network ?env req =
             Replies \<lparr>status_code = 200, reason = ''OK'', resp_url = url req, json_result = Inr (JList [])\<rparr>"
    by (simp add: example_env_def serving_def)
  have s: "\<And>req. raise_for_status \<lparr>status_code = 200, reason = ''OK'', resp_url = url req,
                       json_result = Inr (JList [])\<rparr> = None"
    by (simp add: raise_for_status_def)
  show ?thesis
    using empty_array_not_error [OF c(1) n s] empty_array_not_error [OF c(2) n s]
      empty_array_not_error [OF c(3) n s]
    by (simp add: example_cmdline_def)
qed

subsection \<open>C5: the line printed by get\<close>




subsection \<open>C6: JSONL output\<close>



subsection \<open>C7: where the settings come from\<close>

text \<open>
  C7.  Each of host, port and API secret is the value given on the command line when
  there is one, else the value of its environment variable (\<^verbatim>\<open>NIGHTSCOUT_HOST\<close>,
  \<^verbatim>\<open>NIGHTSCOUT_PORT\<close>, \<^verbatim>\<open>NIGHTSCOUT_API_SECRET\<close>) when that is set, else the built-in default
  (\<^verbatim>\<open>127.0.0.1\<close>, \<^verbatim>\<open>80\<close>, \<^verbatim>\<open>soilentgreenandblue\<close>); and these are the values the request is
  built from.
\<close>

theorem settings_precedence:
  "host (parse_args env cl) =
     spec_precedence (opt_host cl) (environ env ''NIGHTSCOUT_HOST'') ''127.0.0.1''
   \<and> port (parse_args env cl) =
     spec_precedence (opt_port cl) (environ env ''NIGHTSCOUT_PORT'') ''80''
   \<and> api_secret (parse_args env cl) =
     spec_precedence (opt_api_secret cl) (environ env ''NIGHTSCOUT_API_SECRET'') ''soilentgreenandblue''
   \<and> http_calls (snd (cmd_get env (parse_args env cl) w)) = http_calls w @
       [\<lparr>url = ''http://'' @ spec_precedence (opt_host cl) (environ env ''NIGHTSCOUT_HOST'') ''127.0.0.1''
               @ '':'' @ spec_precedence (opt_port cl) (environ env ''NIGHTSCOUT_PORT'') ''80''
               @ ''/api/v1/entries.json'',
         headers = [(''API-SECRET'', spec_precedence (opt_api_secret cl)
                                       (environ env ''NIGHTSCOUT_API_SECRET'') ''soilentgreenandblue'')],
         params = Some [(''count'', PInt 1)]\<rparr>]"
proof -
  have p: "host (parse_args env cl) = spec_precedence (opt_host cl) (environ env ''NIGHTSCOUT_HOST'') ''127.0.0.1''"
    "port (parse_args env cl) = spec_precedence (opt_port cl) (environ env ''NIGHTSCOUT_PORT'') ''80''"
    "api_secret (parse_args env cl) =
       spec_precedence (opt_api_secret cl) (environ env ''NIGHTSCOUT_API_SECRET'') ''soilentgreenandblue''"
    by (simp_all add: parse_args_def spec_precedence_def DEFAULT_HOST_def DEFAULT_PORT_def
          DEFAULT_API_SECRET_def split: option.splits)
  have "http_calls (snd (cmd_get env (parse_args env cl) w)) = http_calls w @
       [\<lparr>url = ''http://'' @ host (parse_args env cl) @ '':'' @ port (parse_args env cl)
               @ ''/api/v1/entries.json'',
         headers = [(''API-SECRET'', api_secret (parse_args env cl))],
         params = Some [(''count'', PInt 1)]\<rparr>]"
    unfolding cmd_get_def api_get_def Let_def print_err_def print_out_def
    by (simp split: sum.splits py_exception.splits)
  then show ?thesis using p by simp
qed

subsection \<open>C8: human-readable output\<close>



subsection \<open>C9: where get raises and history does not\<close>



subsection \<open>C10: absent fields in JSONL output\<close>

text \<open>
  C10.  In JSONL mode the line of an entry without \<^verbatim>\<open>sgv\<close> has \<^verbatim>\<open>"sgv": null\<close>, and the line
  of an entry without \<^verbatim>\<open>dateString\<close> has \<^verbatim>\<open>"timestamp": null\<close>; only \<^verbatim>\<open>units\<close> and
  \<^verbatim>\<open>direction\<close> get a default.
\<close>

theorem jsonl_null_fields:
  assumes \<open>opt_command cl = Some History\<close>
    and \<open>opt_jsonl cl\<close>
    and \<open>calls (run env cl) = [req]\<close>
    and \<open>network env req = Replies r\<close>
    and \<open>raise_for_status r = None\<close>
    and \<open>json_result r = Inr (JList (map JObj es))\<close>
    and \<open>i < length es\<close>
  shows \<open>(map_of (es ! i) ''sgv'' = None \<longrightarrow>
            out (run env cl) ! i =
              ''{"timestamp": '' @ json_dumps (dict_get (es ! i) ''dateString'' JNull)
              @ '', "sgv": null, "units": '' @ json_dumps (dict_get (es ! i) ''units'' (JStr ''mg/dL''))
              @ '', "direction": '' @ json_dumps (dict_get (es ! i) ''direction'' (JStr [])) @ ''}'')
         \<and> (map_of (es ! i) ''dateString'' = None \<longrightarrow>
            out (run env cl) ! i =
              ''{"timestamp": null, "sgv": '' @ json_dumps (dict_get (es ! i) ''sgv'' JNull)
              @ '', "units": '' @ json_dumps (dict_get (es ! i) ''units'' (JStr ''mg/dL''))
              @ '', "direction": '' @ json_dumps (dict_get (es ! i) ''direction'' (JStr [])) @ ''}'')
         \<and> (map_of (es ! i) ''units'' = None \<longrightarrow>
            dict_get (es ! i) ''units'' (JStr ''mg/dL'') = JStr ''mg/dL'')
         \<and> (map_of (es ! i) ''direction'' = None \<longrightarrow>
            dict_get (es ! i) ''direction'' (JStr []) = JStr [])\<close>
proof -
  have t: "try_block (network env) req = Inr (JList (map JObj es))"
    using try_block_reply [OF assms(4,5)] assms(6) by simp
  have o: "out (run env cl) ! i = projr (jsonl_line (JObj (es ! i)))"
    unfolding run_history_objects [OF assms(1,3) t]
    using assms(2,7) by simp
  show ?thesis
    unfolding o jsonl_line_text by (simp add: dict_get_def)
qed

text \<open>An entry with nothing but \<^verbatim>\<open>units\<close>.\<close>

theorem jsonl_null_fields_witness:
  \<open>out (run (example_env [] (serving 200 ''OK'' (JList (map JObj [[(''units'', JStr ''mmol/L'')]]))))
          ((example_cmdline History)\<lparr>opt_jsonl := True\<rparr>)) ! 0 =
     ''{"timestamp": null, "sgv": null, "units": "mmol/L", "direction": ""}''\<close>
proof -
  let ?es = "[[(''units'', JStr ''mmol/L'')]]"
  let ?env = "example_env [] (serving 200 ''OK'' (JList (map JObj ?es)))"
  let ?cl = "(example_cmdline History)\<lparr>opt_jsonl := True\<rparr>"
  let ?req = "example_request [(''find[dateString][$gte]'', PStr ''2023-12-31T00:00:00Z''),
                                (''find[dateString][$lte]'', PStr ''2024-01-01T00:00:00Z''),
                                (''count'', PInt 10000)]"
  have h: "opt_command ?cl = Some History" "opt_jsonl ?cl"
    by (simp_all add: example_cmdline_def)
  have c: "calls (run ?env ?cl) = [?req]"
    by code_simp
  have n: "network ?env ?req =
             Replies \<lparr>status_code = 200, reason = ''OK'', resp_url = url ?req,
                      json_result = Inr (JList (map JObj ?es))\<rparr>"
    by (simp add: example_env_def serving_def)
  have s: "raise_for_status \<lparr>status_code = 200, reason = ''OK'', resp_url = url ?req,
                       json_result = Inr (JList (map JObj ?es))\<rparr> = None"
    by (simp add: raise_for_status_def)
  have i: "0 < length ?es"
    by simp
  have j: \<open>json_string ''mmol/L'' = ''"mmol/L"''\<close> \<open>json_string [] = ''""''\<close>
    by code_simp+
  show ?thesis
    using jsonl_null_fields [where es = ?es and i = 0, OF h c n s _ i]
    by (simp add: dict_get_def j)
qed


end
